theory Spec2Isabelle
  imports Complex_Main
begin

section \<open>Strings and the regular expressions of cel.ts\<close>

text \<open>
  An expression is a JavaScript string. It is modelled as a \<^typ>\<open>string\<close>, a list of
  code units below 256, so the character classes of the regular expressions are the
  JavaScript classes restricted to that range: white space and line terminators are
  TAB, LF, VT, FF, CR, SPACE and NBSP; the line terminators are LF and CR.
\<close>

definition isLineTerminator :: "char \<Rightarrow> bool" where
  "isLineTerminator c = (c = CHR 0x0A \<or> c = CHR 0x0D)"

definition isWhiteSpace :: "char \<Rightarrow> bool" where
  "isWhiteSpace c =
     (c = CHR 0x09 \<or> c = CHR 0x0A \<or> c = CHR 0x0B \<or> c = CHR 0x0C \<or> c = CHR 0x0D
      \<or> c = CHR 0x20 \<or> c = CHR 0xA0)"

text \<open>
  The six patterns of the source are sequences of literal text and of the two greedy
  capturing groups \<^verbatim>\<open>(\S+)\<close> and \<^verbatim>\<open>(.+)\<close>; none has a flag, so a match
  may start anywhere in the string and \<^verbatim>\<open>lastIndex\<close> plays no part.
\<close>

datatype cclass = NonSpace | AnyChar

fun inClass :: "cclass \<Rightarrow> char \<Rightarrow> bool" where
  "inClass NonSpace c = (\<not> isWhiteSpace c)"
| "inClass AnyChar c = (\<not> isLineTerminator c)"

datatype atom = Lit string | Group cclass

type_synonym regexp = "atom list"

text \<open>
  Backtracking of a greedy group: the longest run first, then one character less at a
  time, down to one character.
\<close>

fun tryLengths :: "(nat \<Rightarrow> 'a option) \<Rightarrow> nat \<Rightarrow> 'a option" where
  "tryLengths f 0 = None"
| "tryLengths f (Suc n) = (case f (Suc n) of Some r \<Rightarrow> Some r | None \<Rightarrow> tryLengths f n)"

text \<open>
  \<open>matchHere p s\<close> matches the pattern at the start of \<open>s\<close> and returns the captured
  groups (\<^verbatim>\<open>match[1]\<close>, \<^verbatim>\<open>match[2]\<close>, ...) of the first match in the
  backtracking order.
\<close>

fun matchHere :: "regexp \<Rightarrow> string \<Rightarrow> string list option" where
  "matchHere [] s = Some []"
| "matchHere (Lit l # p) s =
     (if take (length l) s = l then matchHere p (drop (length l) s) else None)"
| "matchHere (Group k # p) s =
     tryLengths (\<lambda>n. map_option ((#) (take n s)) (matchHere p (drop n s)))
       (length (takeWhile (inClass k) s))"

text \<open>\<^verbatim>\<open>regexp.exec(s)\<close>: the leftmost start position that matches wins.\<close>

fun exec :: "regexp \<Rightarrow> string \<Rightarrow> string list option" where
  "exec p [] = matchHere p []"
| "exec p (c # cs) =
     (case matchHere p (c # cs) of Some r \<Rightarrow> Some r | None \<Rightarrow> exec p cs)"

definition test :: "regexp \<Rightarrow> string \<Rightarrow> bool" where
  "test p s = (exec p s \<noteq> None)"

definition identityRegexp :: regexp where
  "identityRegexp = [Lit ''{{ params.'', Group NonSpace, Lit '' }}'']"

definition equalityRegexp :: regexp where
  "equalityRegexp =
     [Lit ''{{ params.'', Group NonSpace, Lit '' == '', Group AnyChar, Lit '' }}'']"

definition dualEqualityRegexp :: regexp where
  "dualEqualityRegexp =
     [Lit ''{{ params.'', Group NonSpace, Lit '' == params.'', Group NonSpace, Lit '' }}'']"

definition ternaryRegexp :: regexp where
  "ternaryRegexp =
     [Lit ''{{ params.'', Group NonSpace, Lit '' == '', Group AnyChar, Lit '' ? '',
      Group AnyChar, Lit '' : '', Group AnyChar, Lit '' }'']"

definition literalTernaryRegexp :: regexp where
  "literalTernaryRegexp =
     [Lit ''{{ params.'', Group NonSpace, Lit '' ? '', Group AnyChar, Lit '' : '',
      Group AnyChar, Lit '' }'']"

definition paramRegexp :: regexp where
  "paramRegexp = [Lit ''params.'', Group NonSpace]"

definition startsWith :: "string \<Rightarrow> string \<Rightarrow> bool" where
  "startsWith s t = (take (length t) s = t)"

definition endsWith :: "string \<Rightarrow> string \<Rightarrow> bool" where
  "endsWith s t = (length t \<le> length s \<and> drop (length s - length t) s = t)"

definition isCelExpression :: "string \<Rightarrow> bool" where
  "isCelExpression v = (startsWith v ''{{'' \<and> endsWith v ''}}'')"

definition isIdentityExpression :: "string \<Rightarrow> bool" where
  "isIdentityExpression v = test identityRegexp v"

definition isEqualityExpression :: "string \<Rightarrow> bool" where
  "isEqualityExpression v = test equalityRegexp v"

definition isDualEqualityExpression :: "string \<Rightarrow> bool" where
  "isDualEqualityExpression v = test dualEqualityRegexp v"

definition isTernaryExpression :: "string \<Rightarrow> bool" where
  "isTernaryExpression v = test ternaryRegexp v"

definition isLiteralTernaryExpression :: "string \<Rightarrow> bool" where
  "isLiteralTernaryExpression v = test literalTernaryRegexp v"

section \<open>JavaScript numbers and the conversion of a string to a number\<close>

text \<open>
  A JavaScript number is an IEEE 754 double: NaN, the two infinities, the negative zero,
  or a finite value, kept as the rational it denotes (\<open>Fin 0\<close> is the positive zero).
\<close>

datatype jsnum = NaN | PosInf | NegInf | NegZero | Fin rat

definition isNaN :: "jsnum \<Rightarrow> bool" where
  "isNaN x = (x = NaN)"

text \<open>\<^verbatim>\<open>===\<close> (and \<^verbatim>\<open>==\<close>) on two numbers: NaN equals nothing, the two zeros are equal.\<close>

fun numEquals :: "jsnum \<Rightarrow> jsnum \<Rightarrow> bool" where
  "numEquals NaN y = False"
| "numEquals x NaN = False"
| "numEquals NegZero y = (y = NegZero \<or> y = Fin 0)"
| "numEquals x NegZero = (x = Fin 0)"
| "numEquals x y = (x = y)"

function bitLength :: "int \<Rightarrow> int" where
  "bitLength n = (if n \<le> 0 then 0 else 1 + bitLength (n div 2))"
  by pat_completeness auto
termination
  by (relation "measure nat") auto

declare bitLength.simps [simp del]

definition pow2 :: "int \<Rightarrow> rat" where
  "pow2 i = (if 0 \<le> i then 2 ^ nat i else 1 / 2 ^ nat (- i))"

definition pow10 :: "int \<Rightarrow> rat" where
  "pow10 i = (if 0 \<le> i then 10 ^ nat i else 1 / 10 ^ nat (- i))"

definition roundHalfEven :: "rat \<Rightarrow> int" where
  "roundHalfEven q =
     (let f = \<lfloor>q\<rfloor>; d = q - of_int f
      in if d < 1 / 2 then f else if 1 / 2 < d then f + 1 else if even f then f else f + 1)"

text \<open>
  Rounding of a positive rational to the nearest double, ties to even; \<open>None\<close> is the
  overflow to infinity. The unit in the last place is \<open>2 ^ (e - 52)\<close> for a value in
  \<open>[2 ^ e, 2 ^ (e + 1))\<close>, and \<open>2 ^ (- 1074)\<close> among the subnormals. The rounded value
  reaches \<open>2 ^ 1024\<close> when the exponent is above 1023, or is 1023 and the significand
  rounds up to \<open>2 ^ 53\<close>.
\<close>

definition roundToDouble :: "rat \<Rightarrow> rat option" where
  "roundToDouble q =
     (let (a, b) = quotient_of q;
          k = bitLength a - bitLength b;
          e = (if pow2 k \<le> q then k else k - 1);
          u = pow2 (max e (- 1022) - 52);
          m = roundHalfEven (q / u)
      in if 1024 \<le> e \<or> (e = 1023 \<and> m = 2 ^ 53) then None else Some (of_int m * u))"

text \<open>The mathematical value of a numeric literal, before rounding.\<close>

datatype mv = MVInfinity | MVFinite rat

definition toDouble :: "bool \<Rightarrow> mv \<Rightarrow> jsnum" where
  "toDouble neg m =
     (case m of
        MVInfinity \<Rightarrow> (if neg then NegInf else PosInf)
      | MVFinite q \<Rightarrow>
          (if q = 0 then (if neg then NegZero else Fin 0)
           else (case roundToDouble q of
                   None \<Rightarrow> (if neg then NegInf else PosInf)
                 | Some r \<Rightarrow>
                     (if r = 0 then (if neg then NegZero else Fin 0)
                      else Fin (if neg then - r else r)))))"

definition digitOf :: "char \<Rightarrow> int option" where
  "digitOf c =
     (let n = (of_char c :: int)
      in if 48 \<le> n \<and> n \<le> 57 then Some (n - 48)
         else if 97 \<le> n \<and> n \<le> 102 then Some (n - 87)
         else if 65 \<le> n \<and> n \<le> 70 then Some (n - 55)
         else None)"

definition isDigitOfBase :: "int \<Rightarrow> char \<Rightarrow> bool" where
  "isDigitOfBase b c = (case digitOf c of None \<Rightarrow> False | Some d \<Rightarrow> d < b)"

fun digitsValue :: "int \<Rightarrow> int \<Rightarrow> string \<Rightarrow> int" where
  "digitsValue b acc [] = acc"
| "digitsValue b acc (c # cs) =
     digitsValue b (acc * b + (case digitOf c of None \<Rightarrow> 0 | Some d \<Rightarrow> d)) cs"

text \<open>A non-empty run of digits of base \<open>b\<close> that is the whole of \<open>s\<close>, and its value.\<close>

definition digitsOnly :: "int \<Rightarrow> string \<Rightarrow> int option" where
  "digitsOnly b s =
     (if s \<noteq> [] \<and> list_all (isDigitOfBase b) s then Some (digitsValue b 0 s) else None)"

text \<open>
  \<^verbatim>\<open>ExponentPart\<close>, optional: nothing, or \<^verbatim>\<open>e\<close> or \<^verbatim>\<open>E\<close>, an optional
  sign and decimal digits up to the end of the text.
\<close>

definition exponentPart :: "string \<Rightarrow> int option" where
  "exponentPart s =
     (case s of
        [] \<Rightarrow> Some 0
      | c # r \<Rightarrow>
          (if c = CHR ''e'' \<or> c = CHR ''E'' then
             (case r of
                [] \<Rightarrow> None
              | d # r' \<Rightarrow>
                  (if d = CHR ''+'' then digitsOnly 10 r'
                   else if d = CHR ''-'' then map_option uminus (digitsOnly 10 r')
                   else digitsOnly 10 r))
           else None))"

text \<open>
  \<^verbatim>\<open>StrUnsignedDecimalLiteral\<close>: \<^verbatim>\<open>Infinity\<close>, digits with an optional
  fraction, or a fraction alone, each with an optional exponent.
\<close>

definition strUnsignedDecimalLiteral :: "string \<Rightarrow> mv option" where
  "strUnsignedDecimalLiteral s =
     (if s = ''Infinity'' then Some MVInfinity
      else
        (let ip = takeWhile (isDigitOfBase 10) s; r1 = dropWhile (isDigitOfBase 10) s
         in if r1 \<noteq> [] \<and> hd r1 = CHR ''.'' then
              (let fp = takeWhile (isDigitOfBase 10) (tl r1);
                   r2 = dropWhile (isDigitOfBase 10) (tl r1)
               in if ip = [] \<and> fp = [] then None
                  else map_option
                         (\<lambda>e. MVFinite ((of_int (digitsValue 10 0 ip)
                                          + of_int (digitsValue 10 0 fp) / 10 ^ length fp)
                                         * pow10 e))
                         (exponentPart r2))
            else if ip = [] then None
            else map_option (\<lambda>e. MVFinite (of_int (digitsValue 10 0 ip) * pow10 e))
                   (exponentPart r1)))"

text \<open>
  \<^verbatim>\<open>StrNumericLiteral\<close>: a signed decimal literal, or an unsigned binary, octal or
  hexadecimal integer. The result is the sign and the mathematical value.
\<close>

definition strNumericLiteral :: "string \<Rightarrow> (bool \<times> mv) option" where
  "strNumericLiteral s =
     (if take 1 s = ''+'' then map_option (Pair False) (strUnsignedDecimalLiteral (drop 1 s))
      else if take 1 s = ''-'' then map_option (Pair True) (strUnsignedDecimalLiteral (drop 1 s))
      else if take 2 s = ''0x'' \<or> take 2 s = ''0X'' then
        map_option (\<lambda>n. (False, MVFinite (of_int n))) (digitsOnly 16 (drop 2 s))
      else if take 2 s = ''0o'' \<or> take 2 s = ''0O'' then
        map_option (\<lambda>n. (False, MVFinite (of_int n))) (digitsOnly 8 (drop 2 s))
      else if take 2 s = ''0b'' \<or> take 2 s = ''0B'' then
        map_option (\<lambda>n. (False, MVFinite (of_int n))) (digitsOnly 2 (drop 2 s))
      else map_option (Pair False) (strUnsignedDecimalLiteral s))"

definition trimString :: "string \<Rightarrow> string" where
  "trimString s = rev (dropWhile isWhiteSpace (rev (dropWhile isWhiteSpace s)))"

text \<open>
  The unary plus of the source on a string, \<^verbatim>\<open>+value\<close>: white space is trimmed, the
  empty text is zero, a numeric literal is its rounded value, anything else is NaN.
\<close>

definition toNumber :: "string \<Rightarrow> jsnum" where
  "toNumber s =
     (let t = trimString s
      in if t = [] then Fin 0
         else (case strNumericLiteral t of
                 None \<Rightarrow> NaN
               | Some (neg, m) \<Rightarrow> toDouble neg m))"

text \<open>
  \<^verbatim>\<open>String.prototype.slice(start, end)\<close>: a negative index counts from the end, both
  indices are clamped to the string, and an empty range gives the empty string.
\<close>

definition slice :: "string \<Rightarrow> int \<Rightarrow> int \<Rightarrow> string" where
  "slice s a b =
     (let len = int (length s);
          lo = (if a < 0 then max (len + a) 0 else min a len);
          hi = (if b < 0 then max (len + b) 0 else min b len)
      in take (nat (max (hi - lo) 0)) (drop (nat lo) s))"

section \<open>Literals, parameter values and failures\<close>

datatype Literal = LString string | LNumber jsnum | LBoolean bool

text \<open>The type \<^verbatim>\<open>L\<close>: the wanted type of a resolution.\<close>

datatype L = TString | TNumber | TBoolean

fun kindOf :: "Literal \<Rightarrow> L" where
  "kindOf (LString s) = TString"
| "kindOf (LNumber n) = TNumber"
| "kindOf (LBoolean b) = TBoolean"

text \<open>
  \<^verbatim>\<open>ParamValue\<close> is imported from \<^verbatim>\<open>./params\<close>; the functions of cel.ts
  read its three legality flags and call its three accessors, which take no argument.
  A value is modelled by the flags and by what each accessor returns.
\<close>

record ParamValue =
  legalString :: bool
  legalNumber :: bool
  legalBoolean :: bool
  asString :: string
  asNumber :: jsnum
  asBoolean :: bool

text \<open>
  \<^verbatim>\<open>Record<string, ParamValue>\<close>: a map from names to values; a name that is not a
  key reads as \<^verbatim>\<open>undefined\<close>, here \<open>None\<close>. The table holds its own keys only:
  the properties an object inherits from its prototype are not modelled.
\<close>

type_synonym ParamTable = "string \<rightharpoonup> ParamValue"

text \<open>
  One constructor for each \<^verbatim>\<open>throw new FirebaseError(...)\<close> of the source, with the
  values its message is built from, and \<open>TypeError\<close> for the exception JavaScript
  raises when a property of \<^verbatim>\<open>undefined\<close> is read.
\<close>

datatype error =
    UnsupportedForm string
  | IllegalTypeCoercion string L
  | MalformedIdentity string
  | IdentityNotResolvable string
  | MalformedEquality string
  | EqualityMissingParam string string
  | CannotInferType string
  | TypeMismatch string
  | MalformedTernary string
  | TernaryMissingParam string string
  | TernaryNonBoolean string string
  | ParamInLiteralContext string
  | NotANumber string
  | NotAString string
  | NotABoolean string
  | TypeError

fun isFirebaseError :: "error \<Rightarrow> bool" where
  "isFirebaseError TypeError = False"
| "isFirebaseError e = True"

section \<open>The functions of cel.ts\<close>

text \<open>
  \<^verbatim>\<open>assertType\<close> reads a flag of \<^verbatim>\<open>paramValue\<close> for every wanted type, so on
  \<^verbatim>\<open>undefined\<close> it raises a TypeError. \<open>None\<close> is the normal return.
\<close>

fun assertType :: "L \<Rightarrow> string \<Rightarrow> ParamValue option \<Rightarrow> error option" where
  "assertType wantType paramName None = Some TypeError"
| "assertType wantType paramName (Some paramValue) =
     (if (wantType = TString \<and> \<not> legalString paramValue)
         \<or> (wantType = TNumber \<and> \<not> legalNumber paramValue)
         \<or> (wantType = TBoolean \<and> \<not> legalBoolean paramValue)
      then Some (IllegalTypeCoercion paramName wantType)
      else None)"

text \<open>
  The last branch of the source, \<^verbatim>\<open>assertExhaustive(wantType)\<close>, is not reached
  by a value of type \<^verbatim>\<open>L\<close>.
\<close>

definition readParamValue :: "L \<Rightarrow> string \<Rightarrow> ParamValue option \<Rightarrow> error + Literal" where
  "readParamValue wantType paramName paramValue =
     (case assertType wantType paramName paramValue of
        Some e \<Rightarrow> Inl e
      | None \<Rightarrow>
          (case paramValue of
             None \<Rightarrow> Inl TypeError
           | Some v \<Rightarrow>
               (case wantType of
                  TString \<Rightarrow> Inr (LString (asString v))
                | TNumber \<Rightarrow> Inr (LNumber (asNumber v))
                | TBoolean \<Rightarrow> Inr (LBoolean (asBoolean v)))))"

text \<open>
  In the resolvers \<open>m\<close> is the list of the captured groups: \<open>m ! 0\<close> is
  \<^verbatim>\<open>match[1]\<close>, \<open>m ! 1\<close> is \<^verbatim>\<open>match[2]\<close>, and so on.
\<close>

definition resolveIdentity :: "L \<Rightarrow> string \<Rightarrow> ParamTable \<Rightarrow> error + Literal" where
  "resolveIdentity wantType expr params =
     (case exec identityRegexp expr of
        None \<Rightarrow> Inl (MalformedIdentity expr)
      | Some m \<Rightarrow>
          (case params (m ! 0) of
             None \<Rightarrow> Inl (IdentityNotResolvable expr)
           | Some v \<Rightarrow> readParamValue wantType (m ! 0) (Some v)))"

text \<open>
  The last branch of the source (a wanted type that is none of the three) is not reached
  by a value of type \<^verbatim>\<open>L\<close>.
\<close>

definition resolveLiteral :: "L \<Rightarrow> string \<Rightarrow> error + Literal" where
  "resolveLiteral wantType v =
     (if exec paramRegexp v \<noteq> None then Inl (ParamInLiteralContext v)
      else
        (case wantType of
           TNumber \<Rightarrow>
             (if isNaN (toNumber v) then Inl (NotANumber v) else Inr (LNumber (toNumber v)))
         | TString \<Rightarrow>
             (if \<not> startsWith v [CHR 0x22] \<or> \<not> endsWith v [CHR 0x22] then Inl (NotAString v)
              else Inr (LString (slice v 1 (- 1))))
         | TBoolean \<Rightarrow>
             (if v = ''true'' then Inr (LBoolean True)
              else if v = ''false'' then Inr (LBoolean False)
              else Inl (NotABoolean v))))"

text \<open>
  \<^verbatim>\<open>===\<close> on two literals: values of different kinds are never equal. The source
  compares values of one kind only, where \<^verbatim>\<open>==\<close> is the same relation.
\<close>

fun strictEquals :: "Literal \<Rightarrow> Literal \<Rightarrow> bool" where
  "strictEquals (LString a) (LString b) = (a = b)"
| "strictEquals (LNumber a) (LNumber b) = numEquals a b"
| "strictEquals (LBoolean a) (LBoolean b) = (a = b)"
| "strictEquals x y = False"

definition resolveEquality :: "string \<Rightarrow> ParamTable \<Rightarrow> error + bool" where
  "resolveEquality expr params =
     (case exec equalityRegexp expr of
        None \<Rightarrow> Inl (MalformedEquality expr)
      | Some m \<Rightarrow>
          (case params (m ! 0) of
             None \<Rightarrow> Inl (EqualityMissingParam expr (m ! 0))
           | Some lhsVal \<Rightarrow>
               (if legalString lhsVal then
                  (case resolveLiteral TString (m ! 1) of
                     Inl e \<Rightarrow> Inl e
                   | Inr rhs \<Rightarrow> Inr (strictEquals (LString (asString lhsVal)) rhs))
                else if legalNumber lhsVal then
                  (case resolveLiteral TNumber (m ! 1) of
                     Inl e \<Rightarrow> Inl e
                   | Inr rhs \<Rightarrow> Inr (strictEquals (LNumber (asNumber lhsVal)) rhs))
                else if legalBoolean lhsVal then
                  (case resolveLiteral TBoolean (m ! 1) of
                     Inl e \<Rightarrow> Inl e
                   | Inr rhs \<Rightarrow> Inr (strictEquals (LBoolean (asBoolean lhsVal)) rhs))
                else Inl (CannotInferType (m ! 0)))))"

text \<open>
  When the right parameter is missing the source names the left one in its message.
\<close>

definition resolveDualEquality :: "string \<Rightarrow> ParamTable \<Rightarrow> error + bool" where
  "resolveDualEquality expr params =
     (case exec dualEqualityRegexp expr of
        None \<Rightarrow> Inl (MalformedEquality expr)
      | Some m \<Rightarrow>
          (case params (m ! 0) of
             None \<Rightarrow> Inl (EqualityMissingParam expr (m ! 0))
           | Some lhsVal \<Rightarrow>
               (case params (m ! 1) of
                  None \<Rightarrow> Inl (EqualityMissingParam expr (m ! 0))
                | Some rhsVal \<Rightarrow>
                    (if legalString lhsVal then
                       (if \<not> legalString rhsVal then Inl (TypeMismatch expr)
                        else Inr (strictEquals (LString (asString lhsVal))
                                    (LString (asString rhsVal))))
                     else if legalNumber lhsVal then
                       (if \<not> legalNumber rhsVal then Inl (TypeMismatch expr)
                        else Inr (strictEquals (LNumber (asNumber lhsVal))
                                    (LNumber (asNumber rhsVal))))
                     else if legalBoolean lhsVal then
                       (if \<not> legalBoolean rhsVal then Inl (TypeMismatch expr)
                        else Inr (strictEquals (LBoolean (asBoolean lhsVal))
                                    (LBoolean (asBoolean rhsVal))))
                     else Inl (CannotInferType (m ! 0))))))"

definition resolveParamOrLiteral :: "L \<Rightarrow> string \<Rightarrow> ParamTable \<Rightarrow> error + Literal" where
  "resolveParamOrLiteral wantType field params =
     (case exec paramRegexp field of
        None \<Rightarrow> resolveLiteral wantType field
      | Some m \<Rightarrow> readParamValue wantType (m ! 0) (params (m ! 0)))"

text \<open>The template string of \<^verbatim>\<open>resolveTernary\<close>.\<close>

definition equalityExpr :: "string \<Rightarrow> string \<Rightarrow> string" where
  "equalityExpr name rhsText = ''{{ params.'' @ name @ '' == '' @ rhsText @ '' }}''"

definition resolveTernary :: "L \<Rightarrow> string \<Rightarrow> ParamTable \<Rightarrow> error + Literal" where
  "resolveTernary wantType expr params =
     (case exec ternaryRegexp expr of
        None \<Rightarrow> Inl (MalformedTernary expr)
      | Some m \<Rightarrow>
          (case resolveEquality (equalityExpr (m ! 0) (m ! 1)) params of
             Inl e \<Rightarrow> Inl e
           | Inr isTrue \<Rightarrow>
               (if isTrue then resolveParamOrLiteral wantType (m ! 2) params
                else resolveParamOrLiteral wantType (m ! 3) params)))"

definition resolveLiteralTernary :: "L \<Rightarrow> string \<Rightarrow> ParamTable \<Rightarrow> error + Literal" where
  "resolveLiteralTernary wantType expr params =
     (case exec literalTernaryRegexp expr of
        None \<Rightarrow> Inl (MalformedTernary expr)
      | Some m \<Rightarrow>
          (case params (m ! 0) of
             None \<Rightarrow> Inl (TernaryMissingParam expr (m ! 0))
           | Some paramValue \<Rightarrow>
               (if \<not> legalBoolean paramValue then Inl (TernaryNonBoolean expr (m ! 0))
                else if asBoolean paramValue then resolveParamOrLiteral wantType (m ! 1) params
                else resolveParamOrLiteral wantType (m ! 2) params)))"

text \<open>
  The two equality resolvers return a boolean, which the entry point returns as it is.
\<close>

definition resolveExpression :: "L \<Rightarrow> string \<Rightarrow> ParamTable \<Rightarrow> error + Literal" where
  "resolveExpression wantType expr params =
     (if isIdentityExpression expr then resolveIdentity wantType expr params
      else if isTernaryExpression expr then resolveTernary wantType expr params
      else if isLiteralTernaryExpression expr then resolveLiteralTernary wantType expr params
      else if isDualEqualityExpression expr then
        map_sum id LBoolean (resolveDualEquality expr params)
      else if isEqualityExpression expr then
        map_sum id LBoolean (resolveEquality expr params)
      else Inl (UnsupportedForm expr))"

section \<open>The notions of the specification\<close>

text \<open>
  The five shapes, the pattern and the resolver of each, and the order of precedence in
  which the specification has them tried.
\<close>

datatype shape = Identity | Ternary | LiteralTernary | DualEquality | Equality

fun shapeRegexp :: "shape \<Rightarrow> regexp" where
  "shapeRegexp Identity = identityRegexp"
| "shapeRegexp Ternary = ternaryRegexp"
| "shapeRegexp LiteralTernary = literalTernaryRegexp"
| "shapeRegexp DualEquality = dualEqualityRegexp"
| "shapeRegexp Equality = equalityRegexp"

fun resolverOf :: "shape \<Rightarrow> L \<Rightarrow> string \<Rightarrow> ParamTable \<Rightarrow> error + Literal" where
  "resolverOf Identity w e ps = resolveIdentity w e ps"
| "resolverOf Ternary w e ps = resolveTernary w e ps"
| "resolverOf LiteralTernary w e ps = resolveLiteralTernary w e ps"
| "resolverOf DualEquality w e ps = map_sum id LBoolean (resolveDualEquality e ps)"
| "resolverOf Equality w e ps = map_sum id LBoolean (resolveEquality e ps)"

definition precedence :: "shape list" where
  "precedence = [Identity, Ternary, LiteralTernary, DualEquality, Equality]"

definition firstShape :: "string \<Rightarrow> shape option" where
  "firstShape e = find (\<lambda>sh. test (shapeRegexp sh) e) precedence"

text \<open>
  The legality flag and the accessor of a type, and the inferred type of a parameter:
  the first legal one of string, number, boolean.
\<close>

fun legalFor :: "L \<Rightarrow> ParamValue \<Rightarrow> bool" where
  "legalFor TString v = legalString v"
| "legalFor TNumber v = legalNumber v"
| "legalFor TBoolean v = legalBoolean v"

fun accessor :: "L \<Rightarrow> ParamValue \<Rightarrow> Literal" where
  "accessor TString v = LString (asString v)"
| "accessor TNumber v = LNumber (asNumber v)"
| "accessor TBoolean v = LBoolean (asBoolean v)"

definition inferType :: "ParamValue \<Rightarrow> L option" where
  "inferType v = find (\<lambda>t. legalFor t v) [TString, TNumber, TBoolean]"

text \<open>
  The first parameter reference inside a text: at the leftmost place where
  \<^verbatim>\<open>params.\<close> stands before a character that is not white space, the name is the
  run of such characters that follows.
\<close>

fun firstParamName :: "string \<Rightarrow> string option" where
  "firstParamName [] = None"
| "firstParamName (c # cs) =
     (if startsWith (c # cs) ''params.''
         \<and> takeWhile (inClass NonSpace) (drop 7 (c # cs)) \<noteq> []
      then Some (takeWhile (inClass NonSpace) (drop 7 (c # cs)))
      else firstParamName cs)"

text \<open>A text of two characters or more that begins and ends with a double quote.\<close>

definition wrappedInQuotes :: "string \<Rightarrow> bool" where
  "wrappedInQuotes v = (2 \<le> length v \<and> hd v = CHR 0x22 \<and> last v = CHR 0x22)"

text \<open>The number of capturing groups of a pattern, and their classes in order.\<close>

fun groupsOf :: "regexp \<Rightarrow> cclass list" where
  "groupsOf [] = []"
| "groupsOf (Lit l # p) = groupsOf p"
| "groupsOf (Group k # p) = k # groupsOf p"

text \<open>
  Parameter Lookup of a parameter that is in the table, at a wanted type: the value of
  the accessor of that type when the type is legal for the parameter, the
  illegal-coercion failure otherwise.
\<close>

definition parameterLookup :: "L \<Rightarrow> string \<Rightarrow> ParamValue \<Rightarrow> error + Literal" where
  "parameterLookup w name v =
     (if legalFor w v then Inr (accessor w v) else Inl (IllegalTypeCoercion name w))"

text \<open>A parameter with no legal type, from which the examples are built.\<close>

definition noParam :: ParamValue where
  "noParam = \<lparr>legalString = False, legalNumber = False, legalBoolean = False,
              asString = [], asNumber = NaN, asBoolean = False\<rparr>"

section \<open>Facts about the matcher\<close>

text \<open>
  A match of a group is one of the lengths that were tried, so every captured group is
  not empty and lies inside its class, and a pattern returns one text for each group.
\<close>

lemma tryLengths_SomeD:
  "tryLengths f n = Some r \<Longrightarrow> \<exists>k. 0 < k \<and> k \<le> n \<and> f k = Some r"
proof (induction n)
  case 0
  then show ?case by simp
next
  case (Suc n)
  show ?case
  proof (cases "f (Suc n)")
    case None
    with Suc.prems have "tryLengths f n = Some r" by simp
    from Suc.IH[OF this] show ?thesis by (meson le_SucI)
  next
    case (Some a)
    with Suc.prems have "f (Suc n) = Some r" by simp
    then show ?thesis by blast
  qed
qed

lemma tryLengths_total:
  "tryLengths (\<lambda>n. Some (g n)) n = (if n = 0 then None else Some (g n))"
  by (cases n) simp_all

lemma tryLengths_at:
  assumes "0 < n" and "f n = Some r"
  shows "tryLengths f n = Some r"
  using assms by (cases n) simp_all

lemma take_run_in_class:
  assumes "k \<le> length (takeWhile P s)"
  shows "list_all P (take k s)"
proof -
  have "take k s = take k (takeWhile P s)"
    using assms by (metis take_append takeWhile_dropWhile_id diff_is_0_eq' take_0 append_Nil2)
  then show ?thesis
    by (metis in_set_takeD list_all_iff set_takeWhileD)
qed

lemma takeWhile_append_stop:
  "list_all P n \<Longrightarrow> \<not> P c \<Longrightarrow> takeWhile P (n @ c # s) = n"
  by (induction n) simp_all

lemma takeWhile_all:
  "list_all P s \<Longrightarrow> takeWhile P s = s"
  by (induction s) simp_all

lemma matchHere_Lit_append:
  "matchHere (Lit l # p) (l @ s) = matchHere p s"
  by simp

lemma matchHere_groups:
  "matchHere p s = Some m \<Longrightarrow>
     list_all2 (\<lambda>k c. c \<noteq> [] \<and> list_all (inClass k) c) (groupsOf p) m"
proof (induction p s arbitrary: m rule: matchHere.induct)
  case (1 s)
  then show ?case by simp
next
  case (2 l p s)
  then show ?case by (simp split: if_splits)
next
  case (3 k p s)
  define f where "f = (\<lambda>n. map_option ((#) (take n s)) (matchHere p (drop n s)))"
  from "3.prems" have "tryLengths f (length (takeWhile (inClass k) s)) = Some m"
    by (simp add: f_def)
  from tryLengths_SomeD[OF this] obtain n where n: "0 < n" "n \<le> length (takeWhile (inClass k) s)"
    and f: "f n = Some m"
    by blast
  from f obtain m' where m': "matchHere p (drop n s) = Some m'" "m = take n s # m'"
    unfolding f_def by auto
  have "n \<le> length s" using n(2) by (meson le_trans length_takeWhile_le)
  with n(1) have ne: "take n s \<noteq> []" by auto
  have ih: "list_all2 (\<lambda>k c. c \<noteq> [] \<and> list_all (inClass k) c) (groupsOf p) m'"
    by (rule "3.IH"[OF m'(1)])
  show ?case
    unfolding m'(2) using ih take_run_in_class[OF n(2)] ne by simp
qed

lemma exec_SomeD:
  "exec p s = Some m \<Longrightarrow> \<exists>i. i \<le> length s \<and> matchHere p (drop i s) = Some m"
proof (induction s)
  case Nil
  then show ?case by simp
next
  case (Cons c cs)
  show ?case
  proof (cases "matchHere p (c # cs)")
    case None
    with Cons.prems have "exec p cs = Some m" by simp
    from Cons.IH[OF this] obtain i where "i \<le> length cs" "matchHere p (drop i cs) = Some m" by blast
    then have "Suc i \<le> length (c # cs) \<and> matchHere p (drop (Suc i) (c # cs)) = Some m" by simp
    then show ?thesis by blast
  next
    case (Some a)
    with Cons.prems have "matchHere p (drop 0 (c # cs)) = Some m" by simp
    then show ?thesis by blast
  qed
qed

lemma exec_groups:
  "exec p s = Some m \<Longrightarrow>
     list_all2 (\<lambda>k c. c \<noteq> [] \<and> list_all (inClass k) c) (groupsOf p) m"
  using exec_SomeD matchHere_groups by blast

lemma exec_equality_shape:
  assumes "exec equalityRegexp e = Some m"
  shows "\<exists>n r. m = [n, r] \<and> n \<noteq> [] \<and> list_all (inClass NonSpace) n
           \<and> r \<noteq> [] \<and> list_all (inClass AnyChar) r"
  using exec_groups[OF assms] by (auto simp: equalityRegexp_def list_all2_Cons1)

lemma exec_dualEquality_shape:
  assumes "exec dualEqualityRegexp e = Some m"
  shows "\<exists>a b. m = [a, b]"
  using exec_groups[OF assms] by (auto simp: dualEqualityRegexp_def list_all2_Cons1)

lemma exec_ternary_shape:
  assumes "exec ternaryRegexp e = Some m"
  shows "\<exists>n r t f. m = [n, r, t, f] \<and> n \<noteq> [] \<and> list_all (inClass NonSpace) n
           \<and> r \<noteq> [] \<and> list_all (inClass AnyChar) r"
  using exec_groups[OF assms] by (auto simp: ternaryRegexp_def list_all2_Cons1)

text \<open>
  \<^verbatim>\<open>paramRegexp\<close> finds the first parameter reference of a text, wherever it stands.
\<close>

lemma length_params: "length ''params.'' = 7"
  by simp

lemma matchHere_paramRegexp:
  "matchHere paramRegexp s =
     (if startsWith s ''params.'' \<and> takeWhile (inClass NonSpace) (drop 7 s) \<noteq> []
      then Some [takeWhile (inClass NonSpace) (drop 7 s)] else None)"
proof -
  have len: "length ''params.'' = 7" by simp
  have "matchHere paramRegexp s =
      (if take 7 s = ''params.''
       then tryLengths (\<lambda>n. Some [take n (drop 7 s)])
              (length (takeWhile (inClass NonSpace) (drop 7 s)))
       else None)"
    unfolding paramRegexp_def matchHere.simps len by simp
  also have "\<dots> = (if startsWith s ''params.'' \<and> takeWhile (inClass NonSpace) (drop 7 s) \<noteq> []
      then Some [takeWhile (inClass NonSpace) (drop 7 s)] else None)"
    unfolding tryLengths_total startsWith_def len
    by (simp add: takeWhile_eq_take[symmetric])
  finally show ?thesis .
qed

lemma exec_paramRegexp:
  "exec paramRegexp v = map_option (\<lambda>n. [n]) (firstParamName v)"
proof (induction v)
  case Nil
  then show ?case by (simp add: matchHere_paramRegexp startsWith_def)
next
  case (Cons c cs)
  then show ?case by (simp add: matchHere_paramRegexp)
qed

lemma firstParamName_append:
  "firstParamName s \<noteq> None \<Longrightarrow> firstParamName (pre @ s) \<noteq> None"
proof (induction pre)
  case Nil
  then show ?case by simp
next
  case (Cons a pre)
  then show ?case by simp
qed

lemma firstParamName_here:
  assumes "\<not> isWhiteSpace c"
  shows "firstParamName (''params.'' @ c # post) \<noteq> None"
  using assms by (simp add: startsWith_def)

lemma firstParamName_contains:
  assumes "v = pre @ ''params.'' @ c # post" and "\<not> isWhiteSpace c"
  shows "firstParamName v \<noteq> None"
  unfolding assms(1) using firstParamName_append[OF firstParamName_here[OF assms(2)]] .

lemma firstParamName_SomeD:
  "firstParamName v = Some n \<Longrightarrow>
     \<exists>pre c post. v = pre @ ''params.'' @ c # post \<and> \<not> isWhiteSpace c"
proof (induction v)
  case Nil
  then show ?case by simp
next
  case (Cons a v)
  show ?case
  proof (cases "startsWith (a # v) ''params.'' \<and> takeWhile (inClass NonSpace) (drop 7 (a # v)) \<noteq> []")
    case True
    then have t: "take 7 (a # v) = ''params.''"
      unfolding startsWith_def length_params by blast
    from True obtain c post where d: "drop 7 (a # v) = c # post" "\<not> isWhiteSpace c"
      by (cases "drop 7 (a # v)") (auto split: if_splits)
    have "take 7 (a # v) @ drop 7 (a # v) = a # v" by (rule append_take_drop_id)
    then have "''params.'' @ c # post = a # v" by (simp only: t d(1))
    then have "a # v = [] @ ''params.'' @ c # post" unfolding append_Nil by (rule sym)
    with d(2) show ?thesis by blast
  next
    case False
    with Cons.prems have "firstParamName v = Some n" by (simp split: if_splits)
    from Cons.IH[OF this] obtain pre c post where "v = pre @ ''params.'' @ c # post" "\<not> isWhiteSpace c" by blast
    then have "a # v = (a # pre) @ ''params.'' @ c # post \<and> \<not> isWhiteSpace c" by simp
    then show ?thesis by blast
  qed
qed

text \<open>
  The template string of the ternary resolver is parsed back by the equality pattern
  into the name and the right-hand text it was built from: the name stops at the space
  before \<^verbatim>\<open>==\<close>, and the greedy right-hand group gives back exactly the closing
  marker.
\<close>

lemma matchHere_rhs:
  assumes r: "r \<noteq> []" and cls: "list_all (inClass AnyChar) r"
  shows "matchHere [Group AnyChar, Lit '' }}''] (r @ '' }}'') = Some [r]"
proof -
  define s where "s = r @ '' }}''"
  define g where "g = (\<lambda>n. map_option ((#) (take n s)) (matchHere [Lit '' }}''] (drop n s)))"
  have all: "list_all (inClass AnyChar) s"
    using cls by (simp add: s_def isLineTerminator_def)
  have len: "length (takeWhile (inClass AnyChar) s) = Suc (Suc (Suc (length r)))"
    by (simp add: takeWhile_all[OF all]) (simp add: s_def)
  have g3: "g (Suc (Suc (Suc (length r)))) = None"
    by (simp add: g_def s_def)
  have g2: "g (Suc (Suc (length r))) = None"
    by (simp add: g_def s_def)
  have g1: "g (Suc (length r)) = None"
    by (simp add: g_def s_def)
  have g0: "g (length r) = Some [r]"
    by (simp add: g_def s_def)
  have "matchHere [Group AnyChar, Lit '' }}''] s = tryLengths g (length (takeWhile (inClass AnyChar) s))"
    by (simp add: g_def)
  also have "\<dots> = tryLengths g (length r)"
    unfolding len by (simp add: g3 g2 g1)
  also have "\<dots> = Some [r]"
    using r g0 by (intro tryLengths_at) simp_all
  finally show ?thesis by (simp add: s_def)
qed

lemma matchHere_equalityExpr:
  assumes n: "n \<noteq> []" "list_all (inClass NonSpace) n"
    and r: "r \<noteq> []" "list_all (inClass AnyChar) r"
  shows "matchHere equalityRegexp (equalityExpr n r) = Some [n, r]"
proof -
  define t where "t = '' == '' @ r @ '' }}''"
  define f where "f = (\<lambda>k. map_option ((#) (take k (n @ t)))
      (matchHere [Lit '' == '', Group AnyChar, Lit '' }}''] (drop k (n @ t))))"
  have run: "takeWhile (inClass NonSpace) (n @ t) = n"
    unfolding t_def using takeWhile_append_stop[OF n(2), of "CHR '' ''"]
    by (simp add: isWhiteSpace_def)
  have "matchHere [Lit '' == '', Group AnyChar, Lit '' }}''] t
          = matchHere [Group AnyChar, Lit '' }}''] (r @ '' }}'')"
    unfolding t_def by (rule matchHere_Lit_append)
  then have tail: "matchHere [Lit '' == '', Group AnyChar, Lit '' }}''] t = Some [r]"
    by (simp only: matchHere_rhs[OF r])
  have fn: "f (length n) = Some [n, r]"
  proof -
    have "take (length n) (n @ t) = n" "drop (length n) (n @ t) = t" by simp_all
    then show ?thesis unfolding f_def by (simp only: tail option.map)
  qed
  have "matchHere equalityRegexp (equalityExpr n r)
          = matchHere [Group NonSpace, Lit '' == '', Group AnyChar, Lit '' }}''] (n @ t)"
    unfolding equalityRegexp_def equalityExpr_def t_def by (rule matchHere_Lit_append)
  also have "\<dots> = tryLengths f (length (takeWhile (inClass NonSpace) (n @ t)))"
    by (simp add: f_def)
  also have "\<dots> = Some [n, r]"
    unfolding run using n(1) fn by (intro tryLengths_at) simp_all
  finally show ?thesis .
qed

lemma exec_equalityExpr:
  assumes "n \<noteq> []" "list_all (inClass NonSpace) n" "r \<noteq> []" "list_all (inClass AnyChar) r"
  shows "exec equalityRegexp (equalityExpr n r) = Some [n, r]"
proof -
  have "equalityExpr n r = CHR ''{'' # (''{ params.'' @ n @ '' == '' @ r @ '' }}'')"
    by (simp add: equalityExpr_def)
  then show ?thesis
    using matchHere_equalityExpr[OF assms] by (metis exec.simps(2) option.simps(5))
qed

section \<open>The kind of a result\<close>

lemma readParamValue_kind:
  "readParamValue w n pv = Inr l \<Longrightarrow> kindOf l = w"
  by (cases pv; cases w) (auto simp: readParamValue_def split: if_splits)

lemma resolveLiteral_kind:
  "resolveLiteral w v = Inr l \<Longrightarrow> kindOf l = w"
  by (cases w) (auto simp: resolveLiteral_def split: if_splits)

lemma resolveParamOrLiteral_kind:
  "resolveParamOrLiteral w v ps = Inr l \<Longrightarrow> kindOf l = w"
  by (auto simp: resolveParamOrLiteral_def split: option.splits
        dest: readParamValue_kind resolveLiteral_kind)

lemma resolveIdentity_kind:
  "resolveIdentity w e ps = Inr l \<Longrightarrow> kindOf l = w"
  by (auto simp: resolveIdentity_def split: option.splits dest: readParamValue_kind)

lemma resolveTernary_kind:
  "resolveTernary w e ps = Inr l \<Longrightarrow> kindOf l = w"
  by (auto simp: resolveTernary_def split: option.splits sum.splits if_splits
        dest: resolveParamOrLiteral_kind)

lemma resolveLiteralTernary_kind:
  "resolveLiteralTernary w e ps = Inr l \<Longrightarrow> kindOf l = w"
  by (auto simp: resolveLiteralTernary_def split: option.splits if_splits
        dest: resolveParamOrLiteral_kind)

lemma map_sum_LBoolean_kind:
  "map_sum id LBoolean r = Inr l \<Longrightarrow> kindOf l = TBoolean"
  by (cases r) auto

text \<open>
  Claim C1 says that every successful resolution returns a literal of the wanted type,
  for all five shapes. It fails for the two equality shapes: the expression
  \<^verbatim>\<open>{{ params.foo == 24 }}\<close>, resolved with the wanted type string against a number
  parameter of value 24, returns the boolean true.
\<close>

theorem equality_ignores_wanted_type:
  \<open>resolveExpression TString ''{{ params.foo == 24 }}''
      [''foo'' \<mapsto> noParam\<lparr>legalNumber := True, asNumber := Fin 24\<rparr>] = Inr (LBoolean True)
   \<and> kindOf (LBoolean True) \<noteq> TString\<close>
  by code_simp

text \<open>
  Claim C1, amended: a successful resolution returns a literal of the wanted type when
  the expression is dispatched as an identity, a ternary or a literal ternary, and a
  boolean, whatever the wanted type, when it is dispatched as a dual equality or an
  equality.
\<close>

theorem resolveExpression_kind:
  assumes "resolveExpression w e ps = Inr l"
  shows "kindOf l =
    (if isIdentityExpression e \<or> isTernaryExpression e \<or> isLiteralTernaryExpression e
     then w else TBoolean)"
proof (cases "isIdentityExpression e")
  case True
  with assms show ?thesis
    by (simp add: resolveExpression_def resolveIdentity_kind)
next
  case ni: False
  show ?thesis
  proof (cases "isTernaryExpression e")
    case True
    with ni assms show ?thesis
      by (simp add: resolveExpression_def resolveTernary_kind)
  next
    case nt: False
    show ?thesis
    proof (cases "isLiteralTernaryExpression e")
      case True
      with ni nt assms show ?thesis
        by (simp add: resolveExpression_def resolveLiteralTernary_kind)
    next
      case False
      with ni nt assms show ?thesis
        by (auto simp: resolveExpression_def split: if_splits dest: map_sum_LBoolean_kind)
    qed
  qed
qed

text \<open>
  An instance: the ternary \<^verbatim>\<open>{{ params.foo == "x" ? "yes" : "no" }}\<close> with the wanted
  type string returns a string.
\<close>

theorem resolveExpression_kind_witness:
  \<open>resolveExpression TString ''{{ params.foo == "x" ? "yes" : "no" }}''
      [''foo'' \<mapsto> noParam\<lparr>legalString := True, asString := ''x''\<rparr>] = Inr (LString ''yes'')
   \<and> isTernaryExpression ''{{ params.foo == "x" ? "yes" : "no" }}''
   \<and> kindOf (LString ''yes'') = TString\<close>
proof -
  have h: \<open>resolveExpression TString ''{{ params.foo == "x" ? "yes" : "no" }}''
      [''foo'' \<mapsto> noParam\<lparr>legalString := True, asString := ''x''\<rparr>] = Inr (LString ''yes'')\<close>
    by code_simp
  have t: \<open>isTernaryExpression ''{{ params.foo == "x" ? "yes" : "no" }}''\<close>
    by code_simp
  from resolveExpression_kind[OF h] t h show ?thesis by simp
qed

section \<open>Dispatch\<close>

text \<open>
  Claim C2: the entry point tries the five patterns in the order identity, ternary,
  literal ternary, dual equality, equality, runs the resolver of the first shape that
  matches, and fails with the unsupported-form error when none does.
\<close>

theorem resolveExpression_dispatch:
  "resolveExpression w e ps =
     (case firstShape e of
        None \<Rightarrow> Inl (UnsupportedForm e)
      | Some sh \<Rightarrow> resolverOf sh w e ps)"
  by (simp add: resolveExpression_def firstShape_def precedence_def
      isIdentityExpression_def isTernaryExpression_def isLiteralTernaryExpression_def
      isDualEqualityExpression_def isEqualityExpression_def)

text \<open>
  Two instances: an expression that matches the equality pattern as well goes to the
  dual-equality resolver, and one that matches no pattern is refused.
\<close>

theorem resolveExpression_dispatch_witness:
  \<open>test equalityRegexp ''{{ params.foo == params.bar }}''
   \<and> firstShape ''{{ params.foo == params.bar }}'' = Some DualEquality
   \<and> resolveExpression TBoolean ''{{ params.foo == params.bar }}'' Map.empty
       = resolverOf DualEquality TBoolean ''{{ params.foo == params.bar }}'' Map.empty
   \<and> firstShape ''{{ params.foo + 1 }}'' = None
   \<and> resolveExpression TBoolean ''{{ params.foo + 1 }}'' Map.empty
       = Inl (UnsupportedForm ''{{ params.foo + 1 }}'')\<close>
proof -
  have a: \<open>test equalityRegexp ''{{ params.foo == params.bar }}''\<close> by code_simp
  have b: \<open>firstShape ''{{ params.foo == params.bar }}'' = Some DualEquality\<close> by code_simp
  have c: \<open>firstShape ''{{ params.foo + 1 }}'' = None\<close> by code_simp
  show ?thesis
    using a b c
      resolveExpression_dispatch[of TBoolean \<open>''{{ params.foo == params.bar }}''\<close> Map.empty]
      resolveExpression_dispatch[of TBoolean \<open>''{{ params.foo + 1 }}''\<close> Map.empty]
    by simp
qed

section \<open>The equality resolvers\<close>

lemma inferType_cases:
  "inferType v =
     (if legalString v then Some TString
      else if legalNumber v then Some TNumber
      else if legalBoolean v then Some TBoolean
      else None)"
  by (simp add: inferType_def)

text \<open>
  Claim C3: for an equality expression whose left parameter is in the table, the type
  of the parameter is the first legal one of string, number, boolean; the right-hand
  text is coerced to that type; the result is the boolean that tells whether the value
  of the accessor strictly equals the coerced literal; and the resolution fails when no
  flag is set or when the coercion fails.
\<close>

theorem resolveEquality_spec:
  assumes "exec equalityRegexp e = Some m" and "ps (m ! 0) = Some v"
  shows "\<exists>name rhsText. m = [name, rhsText] \<and>
     resolveEquality e ps =
       (case inferType v of
          None \<Rightarrow> Inl (CannotInferType name)
        | Some t \<Rightarrow>
            (case resolveLiteral t rhsText of
               Inl err \<Rightarrow> Inl err
             | Inr lit \<Rightarrow> Inr (strictEquals (accessor t v) lit)))"
proof -
  from exec_equality_shape[OF assms(1)] obtain n r where m: "m = [n, r]" by blast
  from assms(2) have v: "ps n = Some v" by (simp add: m)
  have "resolveEquality e ps =
       (case inferType v of
          None \<Rightarrow> Inl (CannotInferType n)
        | Some t \<Rightarrow>
            (case resolveLiteral t r of
               Inl err \<Rightarrow> Inl err
             | Inr lit \<Rightarrow> Inr (strictEquals (accessor t v) lit)))"
    by (simp add: resolveEquality_def assms(1) m v inferType_cases split: sum.splits)
  with m show ?thesis by blast
qed

text \<open>
  An instance, \<^verbatim>\<open>{{ params.foo == 24 }}\<close> against a number parameter: true when its
  value is 24, false when it is 25.
\<close>

theorem resolveEquality_spec_witness:
  \<open>exec equalityRegexp ''{{ params.foo == 24 }}'' = Some [''foo'', ''24'']
   \<and> resolveEquality ''{{ params.foo == 24 }}''
        [''foo'' \<mapsto> noParam\<lparr>legalNumber := True, asNumber := Fin 24\<rparr>] = Inr True
   \<and> resolveEquality ''{{ params.foo == 24 }}''
        [''foo'' \<mapsto> noParam\<lparr>legalNumber := True, asNumber := Fin 25\<rparr>] = Inr False\<close>
proof -
  have m: \<open>exec equalityRegexp ''{{ params.foo == 24 }}'' = Some [''foo'', ''24'']\<close>
    by code_simp
  have lit: \<open>resolveLiteral TNumber ''24'' = Inr (LNumber (Fin 24))\<close>
    by code_simp
  let ?a = \<open>noParam\<lparr>legalNumber := True, asNumber := Fin 24\<rparr>\<close>
  let ?b = \<open>noParam\<lparr>legalNumber := True, asNumber := Fin 25\<rparr>\<close>
  have i: \<open>inferType ?a = Some TNumber\<close> \<open>inferType ?b = Some TNumber\<close>
    by (simp_all add: inferType_def noParam_def)
  have pa: \<open>[''foo'' \<mapsto> ?a] ([''foo'', ''24''] ! 0) = Some ?a\<close>
    and pb: \<open>[''foo'' \<mapsto> ?b] ([''foo'', ''24''] ! 0) = Some ?b\<close>
    by simp_all
  have ra: \<open>resolveEquality ''{{ params.foo == 24 }}'' [''foo'' \<mapsto> ?a] = Inr True\<close>
    using resolveEquality_spec[where ps = \<open>[''foo'' \<mapsto> ?a]\<close> and v = ?a, OF m pa]
    by (simp add: inferType_def lit noParam_def)
  have rb: \<open>resolveEquality ''{{ params.foo == 24 }}'' [''foo'' \<mapsto> ?b] = Inr False\<close>
    using resolveEquality_spec[where ps = \<open>[''foo'' \<mapsto> ?b]\<close> and v = ?b, OF m pb]
    by (simp add: inferType_def lit noParam_def)
  from m ra rb show ?thesis by (intro conjI)
qed

text \<open>
  Claim C5: for a dual-equality expression whose two parameters are in the table and
  whose left parameter has an inferred type, the resolution fails with the type-mismatch
  error when that type is not legal for the right parameter, and otherwise returns the
  equality of the two accessor values of that type.
\<close>

theorem resolveDualEquality_spec:
  assumes "exec dualEqualityRegexp e = Some m"
    and "ps (m ! 0) = Some a" and "ps (m ! 1) = Some b"
    and "inferType a = Some t"
  shows "resolveDualEquality e ps =
     (if legalFor t b then Inr (strictEquals (accessor t a) (accessor t b))
      else Inl (TypeMismatch e))"
proof -
  from exec_dualEquality_shape[OF assms(1)] obtain x y where m: "m = [x, y]" by blast
  from assms(2,3) have ab: "ps x = Some a" "ps y = Some b" by (simp_all add: m)
  from assms(4) show ?thesis
    by (cases t)
      (auto simp: resolveDualEquality_def assms(1) m ab inferType_cases split: if_splits)
qed

text \<open>
  Two instances: a string parameter against a number parameter is a type mismatch; two
  string parameters of equal value are equal.
\<close>

theorem resolveDualEquality_spec_witness:
  \<open>exec dualEqualityRegexp ''{{ params.foo == params.bar }}'' = Some [''foo'', ''bar'']
   \<and> resolveDualEquality ''{{ params.foo == params.bar }}''
        [''foo'' \<mapsto> noParam\<lparr>legalString := True\<rparr>, ''bar'' \<mapsto> noParam\<lparr>legalNumber := True\<rparr>]
       = Inl (TypeMismatch ''{{ params.foo == params.bar }}'')
   \<and> resolveDualEquality ''{{ params.foo == params.bar }}''
        [''foo'' \<mapsto> noParam\<lparr>legalString := True\<rparr>, ''bar'' \<mapsto> noParam\<lparr>legalString := True\<rparr>]
       = Inr True\<close>
proof -
  have m: \<open>exec dualEqualityRegexp ''{{ params.foo == params.bar }}'' = Some [''foo'', ''bar'']\<close>
    by code_simp
  let ?s = \<open>noParam\<lparr>legalString := True\<rparr>\<close>
  let ?n = \<open>noParam\<lparr>legalNumber := True\<rparr>\<close>
  have a1: \<open>[''foo'' \<mapsto> ?s, ''bar'' \<mapsto> ?n] ([''foo'', ''bar''] ! 0) = Some ?s\<close>
    and b1: \<open>[''foo'' \<mapsto> ?s, ''bar'' \<mapsto> ?n] ([''foo'', ''bar''] ! 1) = Some ?n\<close>
    and a2: \<open>[''foo'' \<mapsto> ?s, ''bar'' \<mapsto> ?s] ([''foo'', ''bar''] ! 0) = Some ?s\<close>
    and b2: \<open>[''foo'' \<mapsto> ?s, ''bar'' \<mapsto> ?s] ([''foo'', ''bar''] ! 1) = Some ?s\<close>
    by simp_all
  have i: \<open>inferType ?s = Some TString\<close>
    by (simp add: inferType_def)
  have r1: \<open>resolveDualEquality ''{{ params.foo == params.bar }}''
              [''foo'' \<mapsto> ?s, ''bar'' \<mapsto> ?n]
            = Inl (TypeMismatch ''{{ params.foo == params.bar }}'')\<close>
    using resolveDualEquality_spec[where ps = \<open>[''foo'' \<mapsto> ?s, ''bar'' \<mapsto> ?n]\<close>, OF m a1 b1 i]
    by (simp add: noParam_def)
  have r2: \<open>resolveDualEquality ''{{ params.foo == params.bar }}''
              [''foo'' \<mapsto> ?s, ''bar'' \<mapsto> ?s] = Inr True\<close>
    using resolveDualEquality_spec[where ps = \<open>[''foo'' \<mapsto> ?s, ''bar'' \<mapsto> ?s]\<close>, OF m a2 b2 i]
    by (simp add: noParam_def)
  from m r1 r2 show ?thesis by (intro conjI)
qed

section \<open>The ternary resolver\<close>

text \<open>
  Claim C4: for a ternary expression the condition is the result of the equality
  resolver on the expression \<^verbatim>\<open>{{ params.NAME == RHS }}\<close> built from the first two
  groups, which the equality pattern parses back into that name and that text; a failure
  of the condition is the failure of the whole; otherwise the THEN field is selected
  when the condition is true and the ELSE field when it is false, and the result is the
  Param-or-Literal resolution of the selected field: its coercion as a literal of the
  wanted type when it holds no parameter reference, and the lookup, at the wanted type,
  of the first parameter it names when that parameter is in the table. Every successful
  result is of the wanted type.
\<close>

theorem resolveTernary_spec:
  assumes "isTernaryExpression e"
  shows "\<exists>name rhsText thenField elseField.
     exec ternaryRegexp e = Some [name, rhsText, thenField, elseField]
     \<and> exec equalityRegexp (equalityExpr name rhsText) = Some [name, rhsText]
     \<and> (\<forall>w ps. resolveTernary w e ps =
          (case resolveEquality (equalityExpr name rhsText) ps of
             Inl err \<Rightarrow> Inl err
           | Inr isTrue \<Rightarrow>
               resolveParamOrLiteral w (if isTrue then thenField else elseField) ps))
     \<and> (\<forall>w ps isTrue.
          resolveEquality (equalityExpr name rhsText) ps = Inr isTrue \<longrightarrow>
          firstParamName (if isTrue then thenField else elseField) = None \<longrightarrow>
          resolveTernary w e ps
            = resolveLiteral w (if isTrue then thenField else elseField))
     \<and> (\<forall>w ps isTrue p v.
          resolveEquality (equalityExpr name rhsText) ps = Inr isTrue \<longrightarrow>
          firstParamName (if isTrue then thenField else elseField) = Some p \<longrightarrow>
          ps p = Some v \<longrightarrow>
          resolveTernary w e ps = parameterLookup w p v)
     \<and> (\<forall>w ps l. resolveTernary w e ps = Inr l \<longrightarrow> kindOf l = w)"
proof -
  from assms obtain m where m: "exec ternaryRegexp e = Some m"
    by (auto simp: isTernaryExpression_def test_def)
  from exec_ternary_shape[OF m] obtain n r t f where
    shape: "m = [n, r, t, f]" and cls: "n \<noteq> []" "list_all (inClass NonSpace) n"
      "r \<noteq> []" "list_all (inClass AnyChar) r"
    by blast
  have syn: "exec equalityRegexp (equalityExpr n r) = Some [n, r]"
    by (rule exec_equalityExpr[OF cls])
  have step: "resolveTernary w e ps =
          (case resolveEquality (equalityExpr n r) ps of
             Inl err \<Rightarrow> Inl err
           | Inr isTrue \<Rightarrow> resolveParamOrLiteral w (if isTrue then t else f) ps)" for w ps
    by (simp add: resolveTernary_def m shape split: sum.splits)
  have lit: "resolveTernary w e ps = resolveLiteral w (if c then t else f)"
    if "resolveEquality (equalityExpr n r) ps = Inr c"
      and "firstParamName (if c then t else f) = None" for w ps c
    using that by (simp add: step resolveParamOrLiteral_def exec_paramRegexp)
  have look: "resolveTernary w e ps = parameterLookup w p v"
    if "resolveEquality (equalityExpr n r) ps = Inr c"
      and "firstParamName (if c then t else f) = Some p" and "ps p = Some v" for w ps c p v
  proof -
    have "resolveTernary w e ps = readParamValue w p (Some v)"
      using that by (simp add: step resolveParamOrLiteral_def exec_paramRegexp)
    also have "\<dots> = parameterLookup w p v"
      by (cases w) (simp_all add: readParamValue_def parameterLookup_def)
    finally show ?thesis .
  qed
  have kind: "kindOf l = w" if "resolveTernary w e ps = Inr l" for w ps l
  proof -
    from that obtain c where
      res: "resolveParamOrLiteral w (if c then t else f) ps = Inr l"
      by (auto simp: step split: sum.splits)
    show ?thesis
    proof (cases "exec paramRegexp (if c then t else f)")
      case None
      with res have "resolveLiteral w (if c then t else f) = Inr l"
        by (simp add: resolveParamOrLiteral_def)
      then show ?thesis
        by (cases w) (auto simp: resolveLiteral_def split: if_splits)
    next
      case (Some g)
      with res have "readParamValue w (g ! 0) (ps (g ! 0)) = Inr l"
        by (simp add: resolveParamOrLiteral_def)
      then show ?thesis
        by (cases "ps (g ! 0)"; cases w) (auto simp: readParamValue_def split: if_splits)
    qed
  qed
  have e: "exec ternaryRegexp e = Some [n, r, t, f]"
    using m shape by simp
  show ?thesis
    apply (rule exI[of _ n], rule exI[of _ r], rule exI[of _ t], rule exI[of _ f])
    apply (intro conjI allI impI)
    subgoal by (rule e)
    subgoal by (rule syn)
    subgoal by (rule step)
    subgoal by (rule lit)
    subgoal by (rule look)
    subgoal by (rule kind)
    done
qed

text \<open>
  Three instances. \<^verbatim>\<open>{{ params.foo == "x" ? "yes" : "no" }}\<close> with the wanted type
  string is the string yes when the parameter is x and the string no when it is z.
  \<^verbatim>\<open>{{ params.foo == "x" ? params.bar : "no" }}\<close> is the value of the parameter bar
  when the parameter foo is x. The entry point, evaluated on the first and the third,
  returns the same values.
\<close>

theorem resolveTernary_spec_witness:
  \<open>isTernaryExpression ''{{ params.foo == "x" ? "yes" : "no" }}''
   \<and> exec equalityRegexp (equalityExpr ''foo'' ''"x"'') = Some [''foo'', ''"x"'']
   \<and> resolveTernary TString ''{{ params.foo == "x" ? "yes" : "no" }}''
        [''foo'' \<mapsto> noParam\<lparr>legalString := True, asString := ''x''\<rparr>]
       = Inr (LString ''yes'')
   \<and> resolveTernary TString ''{{ params.foo == "x" ? "yes" : "no" }}''
        [''foo'' \<mapsto> noParam\<lparr>legalString := True, asString := ''z''\<rparr>]
       = Inr (LString ''no'')
   \<and> isTernaryExpression ''{{ params.foo == "x" ? params.bar : "no" }}''
   \<and> resolveTernary TString ''{{ params.foo == "x" ? params.bar : "no" }}''
        [''foo'' \<mapsto> noParam\<lparr>legalString := True, asString := ''x''\<rparr>,
         ''bar'' \<mapsto> noParam\<lparr>legalString := True, asString := ''b''\<rparr>]
       = Inr (LString ''b'')
   \<and> resolveExpression TString ''{{ params.foo == "x" ? "yes" : "no" }}''
        [''foo'' \<mapsto> noParam\<lparr>legalString := True, asString := ''x''\<rparr>]
       = Inr (LString ''yes'')
   \<and> resolveExpression TString ''{{ params.foo == "x" ? params.bar : "no" }}''
        [''foo'' \<mapsto> noParam\<lparr>legalString := True, asString := ''x''\<rparr>,
         ''bar'' \<mapsto> noParam\<lparr>legalString := True, asString := ''b''\<rparr>]
       = Inr (LString ''b'')\<close>
proof -
  let ?e1 = \<open>''{{ params.foo == "x" ? "yes" : "no" }}''\<close>
  let ?e2 = \<open>''{{ params.foo == "x" ? params.bar : "no" }}''\<close>
  let ?x = \<open>noParam\<lparr>legalString := True, asString := ''x''\<rparr>\<close>
  let ?z = \<open>noParam\<lparr>legalString := True, asString := ''z''\<rparr>\<close>
  let ?b = \<open>noParam\<lparr>legalString := True, asString := ''b''\<rparr>\<close>
  have t1: \<open>isTernaryExpression ?e1\<close> and t2: \<open>isTernaryExpression ?e2\<close>
    by code_simp+
  have m1: \<open>exec ternaryRegexp ?e1 = Some [''foo'', ''"x"'', ''"yes"'', ''"no"'']\<close>
    by code_simp
  have m2: \<open>exec ternaryRegexp ?e2 = Some [''foo'', ''"x"'', ''params.bar'', ''"no"'']\<close>
    by code_simp
  have cx: \<open>resolveEquality (equalityExpr ''foo'' ''"x"'') [''foo'' \<mapsto> ?x] = Inr True\<close>
    by code_simp
  have cz: \<open>resolveEquality (equalityExpr ''foo'' ''"x"'') [''foo'' \<mapsto> ?z] = Inr False\<close>
    by code_simp
  have cb: \<open>resolveEquality (equalityExpr ''foo'' ''"x"'') [''foo'' \<mapsto> ?x, ''bar'' \<mapsto> ?b]
              = Inr True\<close>
    by code_simp
  have fy: \<open>firstParamName ''"yes"'' = None\<close> and fn: \<open>firstParamName ''"no"'' = None\<close>
    and fb: \<open>firstParamName ''params.bar'' = Some ''bar''\<close>
    by code_simp+
  have ly: \<open>resolveLiteral TString ''"yes"'' = Inr (LString ''yes'')\<close>
    and ln: \<open>resolveLiteral TString ''"no"'' = Inr (LString ''no'')\<close>
    by code_simp+
  have pb: \<open>parameterLookup TString ''bar'' ?b = Inr (LString ''b'')\<close>
    by (simp add: parameterLookup_def)
  have tb: \<open>[''foo'' \<mapsto> ?x, ''bar'' \<mapsto> ?b] ''bar'' = Some ?b\<close>
    by simp
  from resolveTernary_spec[OF t1] obtain n r t f where
    ex1: \<open>exec ternaryRegexp ?e1 = Some [n, r, t, f]\<close>
    and syn1: \<open>exec equalityRegexp (equalityExpr n r) = Some [n, r]\<close>
    and lit: \<open>\<forall>w ps c. resolveEquality (equalityExpr n r) ps = Inr c \<longrightarrow>
        firstParamName (if c then t else f) = None \<longrightarrow>
        resolveTernary w ?e1 ps = resolveLiteral w (if c then t else f)\<close>
    by blast
  from ex1 have g1: \<open>n = ''foo''\<close> \<open>r = ''"x"''\<close> \<open>t = ''"yes"''\<close> \<open>f = ''"no"''\<close>
    unfolding m1 by simp_all
  have syn: \<open>exec equalityRegexp (equalityExpr ''foo'' ''"x"'') = Some [''foo'', ''"x"'']\<close>
    using syn1 unfolding g1 .
  have lit1: \<open>resolveTernary w ?e1 ps = resolveLiteral w (if c then ''"yes"'' else ''"no"'')\<close>
    if \<open>resolveEquality (equalityExpr ''foo'' ''"x"'') ps = Inr c\<close>
      and \<open>firstParamName (if c then ''"yes"'' else ''"no"'') = None\<close> for w ps c
    using lit that unfolding g1 by blast
  from resolveTernary_spec[OF t2] obtain n' r' t' f' where
    ex2: \<open>exec ternaryRegexp ?e2 = Some [n', r', t', f']\<close>
    and look: \<open>\<forall>w ps c p v. resolveEquality (equalityExpr n' r') ps = Inr c \<longrightarrow>
        firstParamName (if c then t' else f') = Some p \<longrightarrow> ps p = Some v \<longrightarrow>
        resolveTernary w ?e2 ps = parameterLookup w p v\<close>
    by blast
  from ex2 have g2: \<open>n' = ''foo''\<close> \<open>r' = ''"x"''\<close> \<open>t' = ''params.bar''\<close> \<open>f' = ''"no"''\<close>
    unfolding m2 by simp_all
  have look2: \<open>resolveTernary w ?e2 ps = parameterLookup w p v\<close>
    if \<open>resolveEquality (equalityExpr ''foo'' ''"x"'') ps = Inr c\<close>
      and \<open>firstParamName (if c then ''params.bar'' else ''"no"'') = Some p\<close>
      and \<open>ps p = Some v\<close> for w ps c p v
    using look that unfolding g2 by blast
  have r1: \<open>resolveTernary TString ?e1 [''foo'' \<mapsto> ?x] = Inr (LString ''yes'')\<close>
    using lit1[OF cx, of TString] fy ly by simp
  have r2: \<open>resolveTernary TString ?e1 [''foo'' \<mapsto> ?z] = Inr (LString ''no'')\<close>
    using lit1[OF cz, of TString] fn ln by simp
  have r3: \<open>resolveTernary TString ?e2 [''foo'' \<mapsto> ?x, ''bar'' \<mapsto> ?b] = Inr (LString ''b'')\<close>
    using look2[where ps = \<open>[''foo'' \<mapsto> ?x, ''bar'' \<mapsto> ?b]\<close> and c = True
        and p = \<open>''bar''\<close> and v = ?b and w = TString] cb fb tb pb
    by simp
  have d1: \<open>resolveExpression TString ?e1 [''foo'' \<mapsto> ?x] = Inr (LString ''yes'')\<close>
    by code_simp
  have d2: \<open>resolveExpression TString ?e2 [''foo'' \<mapsto> ?x, ''bar'' \<mapsto> ?b]
              = Inr (LString ''b'')\<close>
    by code_simp
  from t1 syn r1 r2 t2 r3 d1 d2 show ?thesis by (intro conjI)
qed

text \<open>
  A branch that is a reference to a parameter missing from the table: the lookup hands
  \<^verbatim>\<open>undefined\<close> to \<^verbatim>\<open>readParamValue\<close>, for every wanted type.
\<close>

lemma resolveParamOrLiteral_missing:
  assumes "exec paramRegexp field = Some m" and "ps (m ! 0) = None"
  shows "resolveParamOrLiteral w field ps = Inl TypeError"
  using assms by (simp add: resolveParamOrLiteral_def readParamValue_def)

text \<open>
  Claim C6 asks for a descriptive unresolvable-reference error when the selected branch
  of a ternary names a parameter that is not in the table. In
  \<^verbatim>\<open>{{ params.flag ? params.missing : 2 }}\<close> with a true flag, the branch is looked up
  without a test for a missing value, and reading a flag of \<^verbatim>\<open>undefined\<close> raises a
  TypeError, which is no error of the resolver; the identity resolver, on the same
  missing name, reports that the expression is not resolvable to a parameter.
\<close>

theorem branch_reference_missing_TypeError:
  \<open>resolveExpression TNumber ''{{ params.flag ? params.missing : 2 }}''
      [''flag'' \<mapsto> noParam\<lparr>legalBoolean := True, asBoolean := True\<rparr>] = Inl TypeError
   \<and> \<not> isFirebaseError TypeError
   \<and> resolveExpression TNumber ''{{ params.missing }}''
      [''flag'' \<mapsto> noParam\<lparr>legalBoolean := True, asBoolean := True\<rparr>]
       = Inl (IdentityNotResolvable ''{{ params.missing }}'')\<close>
  by code_simp

section \<open>The literal coercer\<close>

lemma startsWith_quote:
  "startsWith v [CHR 0x22] \<longleftrightarrow> v \<noteq> [] \<and> hd v = CHR 0x22"
  by (cases v) (simp_all add: startsWith_def)

lemma endsWith_quote:
  "endsWith v [CHR 0x22] \<longleftrightarrow> v \<noteq> [] \<and> last v = CHR 0x22"
proof (cases v rule: rev_cases)
  case Nil
  then show ?thesis by (simp add: endsWith_def)
next
  case (snoc ys y)
  then show ?thesis by (simp add: endsWith_def)
qed

lemma slice_strip:
  "slice v 1 (- 1) = butlast (tl v)"
proof (cases v)
  case Nil
  then show ?thesis by (simp add: slice_def)
next
  case (Cons a w)
  have "butlast w = take (length w - 1) w" by (rule butlast_conv_take)
  moreover have "nat (int (length w) - 1) = length w - 1" by arith
  ultimately show ?thesis
    using Cons by (simp add: slice_def Let_def max_def)
qed

lemma resolveLiteral_guard:
  "firstParamName v \<noteq> None \<Longrightarrow> resolveLiteral w v = Inl (ParamInLiteralContext v)"
  by (simp add: resolveLiteral_def exec_paramRegexp)

lemma resolveLiteral_string_cases:
  "resolveLiteral TString v =
     (if firstParamName v \<noteq> None then Inl (ParamInLiteralContext v)
      else if v \<noteq> [] \<and> hd v = CHR 0x22 \<and> last v = CHR 0x22
      then Inr (LString (butlast (tl v)))
      else Inl (NotAString v))"
  by (auto simp add: resolveLiteral_def exec_paramRegexp startsWith_quote endsWith_quote slice_strip)

text \<open>
  Claim C7 says that string coercion succeeds exactly when the text is wrapped in a
  pair of double quotes. The text \<^verbatim>\<open>"params.x"\<close> is wrapped in quotes, and it is
  refused, because it holds a parameter reference.
\<close>

theorem quoted_reference_rejected:
  \<open>resolveLiteral TString ''"params.x"'' = Inl (ParamInLiteralContext ''"params.x"'')
   \<and> wrappedInQuotes ''"params.x"''\<close>
  by code_simp

text \<open>
  Claim C7, amended: for every text other than the single character of a double quote,
  string coercion succeeds exactly when the text holds no parameter reference and is
  wrapped in a pair of double quotes, and the result is the text without its first and
  its last character, with no escape processing.
\<close>

theorem resolveLiteral_string:
  assumes "v \<noteq> [CHR 0x22]"
  shows "((\<exists>l. resolveLiteral TString v = Inr l) \<longleftrightarrow>
            firstParamName v = None \<and> wrappedInQuotes v)
     \<and> (\<forall>l. resolveLiteral TString v = Inr l \<longrightarrow> l = LString (butlast (tl v)))"
proof -
  have "v \<noteq> [] \<and> hd v = CHR 0x22 \<and> last v = CHR 0x22 \<longleftrightarrow> wrappedInQuotes v"
  proof (cases v)
    case Nil
    then show ?thesis by (simp add: wrappedInQuotes_def)
  next
    case (Cons a w)
    with assms show ?thesis
      by (cases w) (auto simp: wrappedInQuotes_def)
  qed
  then show ?thesis
    unfolding resolveLiteral_string_cases by auto
qed

text \<open>
  An instance: \<^verbatim>\<open>"ab"\<close> is coerced to the string ab.
\<close>

theorem resolveLiteral_string_witness:
  \<open>''"ab"'' \<noteq> ''"'' \<and> firstParamName ''"ab"'' = None \<and> wrappedInQuotes ''"ab"''
   \<and> resolveLiteral TString ''"ab"'' = Inr (LString ''ab'')\<close>
proof -
  have l: \<open>''"ab"'' \<noteq> ''"''\<close> by simp
  have f: \<open>firstParamName ''"ab"'' = None\<close> by code_simp
  have w: \<open>wrappedInQuotes ''"ab"''\<close> by code_simp
  from resolveLiteral_string[OF l] f w show ?thesis by auto
qed

text \<open>
  The text of one double quote alone begins and ends with a quote, and is coerced to
  the empty string.
\<close>

lemma resolveLiteral_lone_quote:
  "resolveLiteral TString [CHR 0x22] = Inr (LString [])"
  by code_simp

text \<open>
  Number coercion follows the conversion of the language: a text that is empty once
  trimmed is zero, a numeric literal is its value, and anything else is refused.
\<close>

lemma toDouble_not_NaN:
  "toDouble neg m \<noteq> NaN"
  by (simp add: toDouble_def split: mv.splits option.splits)

lemma resolveLiteral_number_cases:
  "resolveLiteral TNumber v =
     (if firstParamName v \<noteq> None then Inl (ParamInLiteralContext v)
      else if trimString v = [] then Inr (LNumber (Fin 0))
      else (case strNumericLiteral (trimString v) of
              None \<Rightarrow> Inl (NotANumber v)
            | Some (neg, m) \<Rightarrow> Inr (LNumber (toDouble neg m))))"
  by (simp add: resolveLiteral_def exec_paramRegexp toNumber_def isNaN_def Let_def
      toDouble_not_NaN split: option.splits)

text \<open>
  Claim C8 says that number coercion fails on a text that holds white space only. In
  \<^verbatim>\<open>{{ params.flag ?   : 2 }}\<close> the THEN field is one space; with a true flag and the
  wanted type number the field is coerced to the number 0 and returned.
\<close>

theorem blank_number_literal_is_zero:
  \<open>exec literalTernaryRegexp ''{{ params.flag ?   : 2 }}'' = Some [''flag'', '' '', ''2'']
   \<and> resolveExpression TNumber ''{{ params.flag ?   : 2 }}''
      [''flag'' \<mapsto> noParam\<lparr>legalBoolean := True, asBoolean := True\<rparr>] = Inr (LNumber (Fin 0))\<close>
  by code_simp

text \<open>
  Claim C10: a text that holds \<^verbatim>\<open>params.\<close> before a character that is not white
  space, anywhere inside it, is a parameter reference: literal coercion refuses it for
  every wanted type, and the Param-or-Literal rule reads the parameter whose name is the
  first one captured after \<^verbatim>\<open>params.\<close>.
\<close>

theorem param_reference_anywhere:
  assumes "v = pre @ ''params.'' @ c # post" and "\<not> isWhiteSpace c"
  shows "\<exists>name. firstParamName v = Some name
     \<and> exec paramRegexp v = Some [name]
     \<and> (\<forall>w. resolveLiteral w v = Inl (ParamInLiteralContext v))
     \<and> (\<forall>w ps. resolveParamOrLiteral w v ps = readParamValue w name (ps name))"
proof -
  from firstParamName_contains[OF assms] obtain name where n: "firstParamName v = Some name"
    by blast
  then have e: "exec paramRegexp v = Some [name]" by (simp add: exec_paramRegexp)
  have "resolveLiteral w v = Inl (ParamInLiteralContext v)" for w
    by (rule resolveLiteral_guard) (simp add: n)
  moreover have "resolveParamOrLiteral w v ps = readParamValue w name (ps name)" for w ps
    by (simp add: resolveParamOrLiteral_def e)
  ultimately show ?thesis using n e by blast
qed

text \<open>
  An instance: the quoted text \<^verbatim>\<open>"params.x"\<close> is no string literal; it is a
  reference to the parameter whose name is x followed by a double quote.
\<close>

theorem param_reference_anywhere_witness:
  \<open>\<not> isWhiteSpace CHR ''x''
   \<and> firstParamName ''"params.x"'' = Some ''x"''
   \<and> resolveLiteral TString ''"params.x"'' = Inl (ParamInLiteralContext ''"params.x"'')
   \<and> resolveParamOrLiteral TString ''"params.x"''
        [''x"'' \<mapsto> noParam\<lparr>legalString := True, asString := ''v''\<rparr>] = Inr (LString ''v'')\<close>
proof -
  have d: \<open>''"params.x"'' = ''"'' @ ''params.'' @ CHR ''x'' # ''"''\<close> by simp
  have c: \<open>\<not> isWhiteSpace CHR ''x''\<close> by (simp add: isWhiteSpace_def)
  have n: \<open>firstParamName ''"params.x"'' = Some ''x"''\<close> by code_simp
  have r: \<open>readParamValue TString ''x"''
             ([''x"'' \<mapsto> noParam\<lparr>legalString := True, asString := ''v''\<rparr>] ''x"'')
           = Inr (LString ''v'')\<close>
    by code_simp
  from param_reference_anywhere[OF d c] n r c show ?thesis by auto
qed

section \<open>The close marker of the ternary patterns\<close>

text \<open>
  Claim C9 says that a ternary or a literal ternary must end with the two-character
  marker, so that a string ending in a single brace matches no shape. The two ternary
  patterns end with one brace, where the other three end with two:
  \<^verbatim>\<open>{{ params.foo == 1 ? 2 : 3 }\<close> is a ternary expression and resolves to 2, and
  \<^verbatim>\<open>{{ params.flag ? 1 : 2 }\<close> is a literal ternary expression.
\<close>

theorem single_brace_ternary_accepted:
  \<open>\<not> endsWith ''{{ params.foo == 1 ? 2 : 3 }'' ''}}''
   \<and> \<not> isCelExpression ''{{ params.foo == 1 ? 2 : 3 }''
   \<and> isTernaryExpression ''{{ params.foo == 1 ? 2 : 3 }''
   \<and> firstShape ''{{ params.foo == 1 ? 2 : 3 }'' = Some Ternary
   \<and> resolveExpression TNumber ''{{ params.foo == 1 ? 2 : 3 }''
        [''foo'' \<mapsto> noParam\<lparr>legalNumber := True, asNumber := Fin 1\<rparr>] = Inr (LNumber (Fin 2))
   \<and> isLiteralTernaryExpression ''{{ params.flag ? 1 : 2 }''
   \<and> firstShape ''{{ params.flag ? 1 : 2 }'' = Some LiteralTernary\<close>
  by code_simp

end
